theory Spec2Isabelle
  imports Main
begin

section \<open>Values that cross the binding surface\<close>

text \<open>
  A \<open>Uint8Array\<close> is a list of bytes; HOL characters are bytes, so a chunk is a
  \<open>string\<close> and the chunk \<open>"A"\<close> is written \<open>''A''\<close>. A rejected promise carries
  a JavaScript error, modelled by its message.
\<close>

type_synonym bytes = string

datatype error = Error string

datatype jsval = JNull | JBool bool | JNum int | JStr string

type_synonym insert_options = "(string \<times> string) list"

text \<open>The requests \<open>async_connection.ts\<close> sends through its bindings object, with their arguments.\<close>

datatype call =
    Disconnect nat
  | RunQuery nat string
  | SendQuery nat string
  | FetchQueryResults nat
  | CreatePrepared nat string
  | ClosePrepared nat nat
  | RunPrepared nat nat "jsval list"
  | SendPrepared nat nat "jsval list"
  | InsertArrowFromIPCStream nat bytes insert_options
  | InsertCSVFromPath nat string insert_options
  | InsertJSONFromPath nat string insert_options

section \<open>The bindings object (\<open>AsyncDuckDB\<close>)\<close>

text \<open>
  Modelled from the spec: the class \<open>AsyncDuckDB\<close> (\<open>./async_bindings\<close>) is imported by
  \<open>async_connection.ts\<close> but its file is not among the sources. The spec's Binding Surface
  is a set of asynchronous, single-shot primitives, each of which may fail, served by the
  engine in issuance order. The model is a deterministic engine: the outcome of a request is
  a function of the requests issued so far, that request included (\<open>reply_bytes\<close> for the
  primitives that resolve to a buffer, \<open>reply_void\<close> for those that resolve to nothing,
  \<open>reply_ident\<close> for \<open>createPrepared\<close>). \<open>calls\<close> records the requests in issuance
  order; \<open>pending\<close> holds the numbers of the requests whose promise the client has not
  yet seen settle; \<open>peak\<close> is the largest number of requests that were ever pending at
  once (the instrumentation of the spec's mock, "assert call concurrency \<le> 1"); \<open>logged\<close>
  is what the code has written to the bindings' logger.
\<close>

record AsyncDuckDB =
  reply_bytes :: "call list \<Rightarrow> error + bytes"
  reply_void :: "call list \<Rightarrow> error + unit"
  reply_ident :: "call list \<Rightarrow> error + nat"
  calls :: "call list"
  pending :: "nat list"
  peak :: nat
  logged :: "string list"

text \<open>
  A promise is the number of its request together with the outcome it settles to. Holding a
  promise does not make the request settled: \<open>await\<close> does, for the client.
\<close>

datatype 'a promise = Promise (pid: nat) (outcome: "error + 'a")

text \<open>Modelled from the spec: issuing a request to the Binding Surface (a message posted to the engine).\<close>

definition post :: "call \<Rightarrow> AsyncDuckDB \<Rightarrow> AsyncDuckDB" where
  "post c db =
     db\<lparr>calls := calls db @ [c],
        pending := pending db @ [length (calls db)],
        peak := max (peak db) (Suc (length (pending db)))\<rparr>"

text \<open>Awaiting a promise: the caller resumes with its outcome, and the request is no longer pending.\<close>

definition await :: "'a promise \<Rightarrow> AsyncDuckDB \<Rightarrow> (error + 'a) \<times> AsyncDuckDB" where
  "await p db = (outcome p, db\<lparr>pending := removeAll (pid p) (pending db)\<rparr>)"

text \<open>
  Modelled from the spec: a primitive of the Binding Surface. Calling one issues its request
  at once and returns the promise of the outcome; \<open>reply\<close> selects the engine's answer
  of the primitive's result type.
\<close>

definition request :: "(AsyncDuckDB \<Rightarrow> call list \<Rightarrow> error + 'a) \<Rightarrow> call \<Rightarrow> AsyncDuckDB \<Rightarrow>
    'a promise \<times> AsyncDuckDB" where
  "request reply c db =
     (Promise (length (calls db)) (reply db (calls db @ [c])), post c db)"

text \<open>
  Modelled from the spec: the primitives \<open>async_connection.ts\<close> calls, under the names its
  code uses (\<open>fetchQueryResults\<close> is the spec's \<open>fetchNext\<close>, where empty bytes mean the
  end of the stream; \<open>insertArrowFromIPCStream\<close> is \<open>insertColumnarStream\<close>).
\<close>

definition disconnect :: "AsyncDuckDB \<Rightarrow> nat \<Rightarrow> unit promise \<times> AsyncDuckDB" where
  "disconnect db conn = request reply_void (Disconnect conn) db"

definition bindings_runQuery :: "AsyncDuckDB \<Rightarrow> nat \<Rightarrow> string \<Rightarrow> bytes promise \<times> AsyncDuckDB" where
  "bindings_runQuery db conn txt = request reply_bytes (RunQuery conn txt) db"

definition bindings_sendQuery :: "AsyncDuckDB \<Rightarrow> nat \<Rightarrow> string \<Rightarrow> bytes promise \<times> AsyncDuckDB" where
  "bindings_sendQuery db conn txt = request reply_bytes (SendQuery conn txt) db"

definition fetchQueryResults :: "AsyncDuckDB \<Rightarrow> nat \<Rightarrow> bytes promise \<times> AsyncDuckDB" where
  "fetchQueryResults db conn = request reply_bytes (FetchQueryResults conn) db"

definition createPrepared :: "AsyncDuckDB \<Rightarrow> nat \<Rightarrow> string \<Rightarrow> nat promise \<times> AsyncDuckDB" where
  "createPrepared db conn txt = request reply_ident (CreatePrepared conn txt) db"

definition closePrepared :: "AsyncDuckDB \<Rightarrow> nat \<Rightarrow> nat \<Rightarrow> unit promise \<times> AsyncDuckDB" where
  "closePrepared db conn stmt = request reply_void (ClosePrepared conn stmt) db"

definition runPrepared :: "AsyncDuckDB \<Rightarrow> nat \<Rightarrow> nat \<Rightarrow> jsval list \<Rightarrow> bytes promise \<times> AsyncDuckDB" where
  "runPrepared db conn stmt params = request reply_bytes (RunPrepared conn stmt params) db"

definition sendPrepared :: "AsyncDuckDB \<Rightarrow> nat \<Rightarrow> nat \<Rightarrow> jsval list \<Rightarrow> bytes promise \<times> AsyncDuckDB" where
  "sendPrepared db conn stmt params = request reply_bytes (SendPrepared conn stmt params) db"

definition bindings_insertArrowFromIPCStream :: "AsyncDuckDB \<Rightarrow> nat \<Rightarrow> bytes \<Rightarrow> insert_options \<Rightarrow>
    unit promise \<times> AsyncDuckDB" where
  "bindings_insertArrowFromIPCStream db conn buffer options =
     request reply_void (InsertArrowFromIPCStream conn buffer options) db"

definition bindings_insertCSVFromPath :: "AsyncDuckDB \<Rightarrow> nat \<Rightarrow> string \<Rightarrow> insert_options \<Rightarrow>
    unit promise \<times> AsyncDuckDB" where
  "bindings_insertCSVFromPath db conn path options =
     request reply_void (InsertCSVFromPath conn path options) db"

definition bindings_insertJSONFromPath :: "AsyncDuckDB \<Rightarrow> nat \<Rightarrow> string \<Rightarrow> insert_options \<Rightarrow>
    unit promise \<times> AsyncDuckDB" where
  "bindings_insertJSONFromPath db conn path options =
     request reply_void (InsertJSONFromPath conn path options) db"

text \<open>
  A mock engine that answers the k-th request it receives with the k-th entry of a script
  (and with an empty buffer once the script is used up).
\<close>

definition scripted :: "(error + bytes) list \<Rightarrow> call list \<Rightarrow> error + bytes" where
  "scripted rs cs = (case drop (length cs - 1) rs of [] \<Rightarrow> Inr [] | r # _ \<Rightarrow> r)"

definition mock_db :: "(error + bytes) list \<Rightarrow> AsyncDuckDB" where
  "mock_db rs =
     \<lparr>reply_bytes = scripted rs, reply_void = (\<lambda>cs. Inr ()), reply_ident = (\<lambda>cs. Inr 0),
      calls = [], pending = [], peak = 0, logged = []\<rparr>"

section \<open>The result stream iterator (\<open>AsyncResultStreamIterator\<close>)\<close>

text \<open>
  The fields of the class. \<open>db\<close> is a reference to the shared bindings object, whose state is
  passed explicitly to every operation and returned updated. \<open>inFlight\<close> is \<open>None\<close> for
  \<open>null\<close>.
\<close>

record AsyncResultStreamIterator =
  conn :: nat
  header :: bytes
  first :: bool
  depleted :: bool
  inFlight :: "bytes promise option"

text \<open>\<open>IteratorResult<Uint8Array>\<close>: \<open>{ done, value }\<close>, with \<open>None\<close> for the value \<open>null\<close>.\<close>

record IteratorResult =
  res_done :: bool
  res_value :: "bytes option"

definition new_AsyncResultStreamIterator :: "nat \<Rightarrow> bytes \<Rightarrow> AsyncResultStreamIterator" where
  "new_AsyncResultStreamIterator c h =
     \<lparr>conn = c, header = h, first = True, depleted = False, inFlight = None\<rparr>"

text \<open>
  Lines 166 to 173 of \<open>next()\<close>: what happens once a buffer has arrived. The stream is
  depleted when the buffer is empty; otherwise the following fetch is issued and parked in
  the in-flight slot before the buffer is returned.
\<close>

definition received :: "bytes \<Rightarrow> AsyncResultStreamIterator \<Rightarrow> AsyncDuckDB \<Rightarrow>
    (error + IteratorResult) \<times> AsyncResultStreamIterator \<times> AsyncDuckDB" where
  "received buffer it db =
     (let it1 = it\<lparr>depleted := (length buffer = 0)\<rparr> in
      if \<not> depleted it1 then
        (case fetchQueryResults db (conn it1) of
           (p, db1) \<Rightarrow>
             (Inr \<lparr>res_done = depleted it1, res_value = Some buffer\<rparr>,
              it1\<lparr>inFlight := Some p\<rparr>, db1))
      else (Inr \<lparr>res_done = depleted it1, res_value = Some buffer\<rparr>, it1, db))"

text \<open>
  \<open>next()\<close>, called and awaited by one consumer at a time. A rejected promise throws at its
  \<open>await\<close>: the statements after it do not run, so the iterator keeps the fields it had
  (in particular a rejected in-flight promise stays in the slot), and the call fails with
  the error.
\<close>

definition iterator_next :: "AsyncResultStreamIterator \<Rightarrow> AsyncDuckDB \<Rightarrow>
    (error + IteratorResult) \<times> AsyncResultStreamIterator \<times> AsyncDuckDB" where
  "iterator_next it db =
     (if first it then
        (Inr \<lparr>res_done = False, res_value = Some (header it)\<rparr>, it\<lparr>first := False\<rparr>, db)
      else if depleted it then
        (Inr \<lparr>res_done = True, res_value = None\<rparr>, it, db)
      else
        (case inFlight it of
           Some p \<Rightarrow>
             (case await p db of
                (Inl e, db1) \<Rightarrow> (Inl e, it, db1)
              | (Inr buffer, db1) \<Rightarrow> received buffer (it\<lparr>inFlight := None\<rparr>) db1)
         | None \<Rightarrow>
             (case fetchQueryResults db (conn it) of
                (p, db1) \<Rightarrow>
                  (case await p db1 of
                     (Inl e, db2) \<Rightarrow> (Inl e, it, db2)
                   | (Inr buffer, db2) \<Rightarrow> received buffer it db2))))"

text \<open>
  \<open>next()\<close> is an \<open>async\<close> method: a call runs up to its first \<open>await\<close> at once and
  the rest when the awaited promise has settled, and other code, a second \<open>next()\<close>
  call included, can run in between. \<open>iterator_next_start\<close> is the code up to the first
  \<open>await\<close>: the call has either returned already (lines 152 to 158), or it is suspended
  at line 161 on the promise of the in-flight slot, or at line 164 on the promise of the
  fetch it has just issued, which is held in no field. \<open>iterator_next_resume\<close> is the
  rest of the call, run on the fields as they are when it resumes.
\<close>

datatype next_task =
    Returned "error + IteratorResult"
  | AwaitInFlight "bytes promise"
  | AwaitFetch "bytes promise"

definition iterator_next_start :: "AsyncResultStreamIterator \<Rightarrow> AsyncDuckDB \<Rightarrow>
    next_task \<times> AsyncResultStreamIterator \<times> AsyncDuckDB" where
  "iterator_next_start it db =
     (if first it then
        (Returned (Inr \<lparr>res_done = False, res_value = Some (header it)\<rparr>), it\<lparr>first := False\<rparr>, db)
      else if depleted it then
        (Returned (Inr \<lparr>res_done = True, res_value = None\<rparr>), it, db)
      else
        (case inFlight it of
           Some p \<Rightarrow> (AwaitInFlight p, it, db)
         | None \<Rightarrow>
             (case fetchQueryResults db (conn it) of (p, db1) \<Rightarrow> (AwaitFetch p, it, db1))))"

definition iterator_next_resume :: "next_task \<Rightarrow> AsyncResultStreamIterator \<Rightarrow> AsyncDuckDB \<Rightarrow>
    (error + IteratorResult) \<times> AsyncResultStreamIterator \<times> AsyncDuckDB" where
  "iterator_next_resume t it db =
     (case t of
        Returned r \<Rightarrow> (r, it, db)
      | AwaitInFlight p \<Rightarrow>
          (case await p db of
             (Inl e, db1) \<Rightarrow> (Inl e, it, db1)
           | (Inr buffer, db1) \<Rightarrow> received buffer (it\<lparr>inFlight := None\<rparr>) db1)
      | AwaitFetch p \<Rightarrow>
          (case await p db of
             (Inl e, db1) \<Rightarrow> (Inl e, it, db1)
           | (Inr buffer, db1) \<Rightarrow> received buffer it db1))"

text \<open>A consumer that calls \<open>next()\<close> n times, each call awaited before the following one.\<close>

fun run_next :: "nat \<Rightarrow> AsyncResultStreamIterator \<Rightarrow> AsyncDuckDB \<Rightarrow>
    (error + IteratorResult) list \<times> AsyncResultStreamIterator \<times> AsyncDuckDB" where
  "run_next 0 it db = ([], it, db)"
| "run_next (Suc n) it db =
     (case iterator_next it db of
        (r, it1, db1) \<Rightarrow>
          (case run_next n it1 db1 of (rs, it2, db2) \<Rightarrow> (r # rs, it2, db2)))"

subsection \<open>The reader built over the iterator\<close>

text \<open>
  \<open>sendQuery\<close> and \<open>send\<close> hand the new iterator to
  \<open>await arrow.RecordBatchReader.from(iter)\<close> before they return. That function belongs
  to the library \<open>apache-arrow\<close>: it consumes the iterator by calling \<open>next()\<close>, one call
  awaited after the other, and then returns a reader or fails. Which calls it makes is the
  library's business, so it is a parameter, the policy: from the results of the
  \<open>next()\<close> calls made so far it either pulls once more, or is ready with a reader, or
  fails. A policy that pulls for ever makes the construction not return (\<open>None\<close>).
\<close>

datatype 'r verdict = Pull | Ready 'r | Fail error

partial_function (option) RecordBatchReader_from ::
  "((error + IteratorResult) list \<Rightarrow> 'r verdict) \<Rightarrow> (error + IteratorResult) list \<Rightarrow>
   AsyncResultStreamIterator \<Rightarrow> AsyncDuckDB \<Rightarrow>
   ((error + 'r) \<times> AsyncResultStreamIterator \<times> AsyncDuckDB) option" where
  "RecordBatchReader_from policy seen it db =
     (case policy seen of
        Ready reader \<Rightarrow> Some (Inr reader, it, db)
      | Fail e \<Rightarrow> Some (Inl e, it, db)
      | Pull \<Rightarrow>
          (case iterator_next it db of
             (r, it1, db1) \<Rightarrow> RecordBatchReader_from policy (seen @ [r]) it1 db1))"

declare RecordBatchReader_from.simps [code]

text \<open>
  A policy for the examples: pull until n bytes of chunks have been seen, or the stream has
  ended, or a pull has failed, and then be ready with the bytes seen or fail with the error
  of the pull. (The library starts by peeking at the first 8 bytes of the stream in this
  manner.)
\<close>

definition seen_bytes :: "(error + IteratorResult) list \<Rightarrow> bytes" where
  "seen_bytes seen =
     concat (map (\<lambda>x. case x of
                         Inl e \<Rightarrow> []
                       | Inr r \<Rightarrow> (if res_done r then []
                                  else (case res_value r of None \<Rightarrow> [] | Some b \<Rightarrow> b))) seen)"

definition peek_policy :: "nat \<Rightarrow> (error + IteratorResult) list \<Rightarrow> bytes verdict" where
  "peek_policy n seen =
     (if seen = [] then Pull
      else (case last seen of
              Inl e \<Rightarrow> Fail e
            | Inr r \<Rightarrow> if res_done r \<or> n \<le> length (seen_bytes seen) then Ready (seen_bytes seen)
                       else Pull))"

section \<open>The connection (\<open>AsyncDuckDBConnection\<close>)\<close>

text \<open>
  The connection holds the connection handle \<open>_conn\<close>; its other field, \<open>_bindings\<close>,
  is the reference to the shared bindings object, passed explicitly as for the iterator.
\<close>

record AsyncDuckDBConnection =
  c_conn :: nat

subsection \<open>One-shot operations\<close>

text \<open>
  An \<open>async\<close> method runs up to its first \<open>await\<close> when it is called, and the rest
  when the awaited promise has settled. Each operation is therefore given in two parts:
  \<open>_start\<close>, the code up to the first \<open>await\<close>, which returns the promise awaited, and
  the whole operation as a caller sees it who awaits it before doing anything else.

  \<open>runQuery\<close> and \<open>sendQuery\<close> first write a log entry; \<open>logged\<close> keeps the
  \<open>value\<close> of each entry (its other fields are constants and a timestamp). Decoding a
  buffer into a table is the work of \<open>apache-arrow\<close>: the decoder is a parameter, and
  \<open>console.assert\<close> does not throw. \<open>sendQuery\<close> builds the reader over its new
  iterator before it returns, and returns the reader together with the iterator it wraps.
\<close>

definition connection_close_start :: "AsyncDuckDBConnection \<Rightarrow> AsyncDuckDB \<Rightarrow>
    unit promise \<times> AsyncDuckDB" where
  "connection_close_start c db = disconnect db (c_conn c)"

definition connection_close :: "AsyncDuckDBConnection \<Rightarrow> AsyncDuckDB \<Rightarrow> (error + unit) \<times> AsyncDuckDB" where
  "connection_close c db = (case connection_close_start c db of (p, db1) \<Rightarrow> await p db1)"

definition runQuery_start :: "AsyncDuckDBConnection \<Rightarrow> string \<Rightarrow> AsyncDuckDB \<Rightarrow>
    bytes promise \<times> AsyncDuckDB" where
  "runQuery_start c txt db = bindings_runQuery (db\<lparr>logged := logged db @ [txt]\<rparr>) (c_conn c) txt"

definition runQuery_resume :: "(bytes \<Rightarrow> error + 't) \<Rightarrow> bytes promise \<Rightarrow> AsyncDuckDB \<Rightarrow>
    (error + 't) \<times> AsyncDuckDB" where
  "runQuery_resume decode p db =
     (case await p db of
        (Inl e, db1) \<Rightarrow> (Inl e, db1)
      | (Inr buffer, db1) \<Rightarrow> (decode buffer, db1))"

definition runQuery :: "(bytes \<Rightarrow> error + 't) \<Rightarrow> AsyncDuckDBConnection \<Rightarrow> string \<Rightarrow> AsyncDuckDB \<Rightarrow>
    (error + 't) \<times> AsyncDuckDB" where
  "runQuery decode c txt db =
     (case runQuery_start c txt db of (p, db1) \<Rightarrow> runQuery_resume decode p db1)"

definition sendQuery_start :: "AsyncDuckDBConnection \<Rightarrow> string \<Rightarrow> AsyncDuckDB \<Rightarrow>
    bytes promise \<times> AsyncDuckDB" where
  "sendQuery_start c txt db = bindings_sendQuery (db\<lparr>logged := logged db @ [txt]\<rparr>) (c_conn c) txt"

definition sendQuery :: "((error + IteratorResult) list \<Rightarrow> 'r verdict) \<Rightarrow>
    AsyncDuckDBConnection \<Rightarrow> string \<Rightarrow> AsyncDuckDB \<Rightarrow>
    ((error + 'r \<times> AsyncResultStreamIterator) \<times> AsyncDuckDB) option" where
  "sendQuery policy c txt db =
     (case sendQuery_start c txt db of
        (p, db1) \<Rightarrow>
          (case await p db1 of
             (Inl e, db2) \<Rightarrow> Some (Inl e, db2)
           | (Inr hdr, db2) \<Rightarrow>
               (case RecordBatchReader_from policy []
                       (new_AsyncResultStreamIterator (c_conn c) hdr) db2 of
                  None \<Rightarrow> None
                | Some (Inl e, it, db3) \<Rightarrow> Some (Inl e, db3)
                | Some (Inr reader, it, db3) \<Rightarrow> Some (Inr (reader, it), db3))))"

definition insertArrowFromIPCStream_start :: "AsyncDuckDBConnection \<Rightarrow> bytes \<Rightarrow> insert_options \<Rightarrow>
    AsyncDuckDB \<Rightarrow> unit promise \<times> AsyncDuckDB" where
  "insertArrowFromIPCStream_start c buffer options db =
     bindings_insertArrowFromIPCStream db (c_conn c) buffer options"

definition insertArrowFromIPCStream :: "AsyncDuckDBConnection \<Rightarrow> bytes \<Rightarrow> insert_options \<Rightarrow>
    AsyncDuckDB \<Rightarrow> (error + unit) \<times> AsyncDuckDB" where
  "insertArrowFromIPCStream c buffer options db =
     (case insertArrowFromIPCStream_start c buffer options db of (p, db1) \<Rightarrow> await p db1)"

definition insertCSVFromPath_start :: "AsyncDuckDBConnection \<Rightarrow> string \<Rightarrow> insert_options \<Rightarrow>
    AsyncDuckDB \<Rightarrow> unit promise \<times> AsyncDuckDB" where
  "insertCSVFromPath_start c txt options db = bindings_insertCSVFromPath db (c_conn c) txt options"

definition insertCSVFromPath :: "AsyncDuckDBConnection \<Rightarrow> string \<Rightarrow> insert_options \<Rightarrow>
    AsyncDuckDB \<Rightarrow> (error + unit) \<times> AsyncDuckDB" where
  "insertCSVFromPath c txt options db =
     (case insertCSVFromPath_start c txt options db of (p, db1) \<Rightarrow> await p db1)"

definition insertJSONFromPath_start :: "AsyncDuckDBConnection \<Rightarrow> string \<Rightarrow> insert_options \<Rightarrow>
    AsyncDuckDB \<Rightarrow> unit promise \<times> AsyncDuckDB" where
  "insertJSONFromPath_start c txt options db = bindings_insertJSONFromPath db (c_conn c) txt options"

definition insertJSONFromPath :: "AsyncDuckDBConnection \<Rightarrow> string \<Rightarrow> insert_options \<Rightarrow>
    AsyncDuckDB \<Rightarrow> (error + unit) \<times> AsyncDuckDB" where
  "insertJSONFromPath c txt options db =
     (case insertJSONFromPath_start c txt options db of (p, db1) \<Rightarrow> await p db1)"

text \<open>
  \<open>useUnsafe(callback)\<close>. The callback receives the bindings object and the connection
  handle; whatever it does to the bindings is part of what it returns.
\<close>

definition useUnsafe :: "AsyncDuckDBConnection \<Rightarrow> (AsyncDuckDB \<Rightarrow> nat \<Rightarrow> 'r) \<Rightarrow> AsyncDuckDB \<Rightarrow> 'r" where
  "useUnsafe c callback db = callback db (c_conn c)"

subsection \<open>Batch insertion\<close>

text \<open>
  Modelled from the spec: \<open>utils.IPCBuffer\<close> is not among the sources. The spec describes
  it as an owned growable buffer that the encoder accumulates into, with a flush that hands
  the accumulated bytes out and leaves an empty buffer behind.
\<close>

type_synonym IPCBuffer = bytes

definition flush :: "IPCBuffer \<Rightarrow> bytes \<times> IPCBuffer" where
  "flush buffer = (buffer, [])"

text \<open>
  Modelled from the spec: the Columnar Stream Encoder (\<open>arrow.RecordBatchStreamWriter\<close>,
  from the library \<open>apache-arrow\<close>) serialises a schema and a sequence of batches
  incrementally into the buffer it is bound to. Its wire format is out of scope, so the
  encoder is a parameter: any deterministic encoder with a state of its own.
  \<open>w_reset schema\<close> is the state after \<open>reset(buffer, schema)\<close> and the bytes it puts
  into the buffer (the header), \<open>w_write w batch\<close> the state and the bytes of
  \<open>write(batch)\<close>, \<open>w_finish w\<close> the bytes of \<open>finish()\<close> (the trailing framing).
\<close>

record ('w, 's, 'r) RecordBatchStreamWriter =
  w_reset :: "'s \<Rightarrow> 'w \<times> bytes"
  w_write :: "'w \<Rightarrow> 'r \<Rightarrow> 'w \<times> bytes"
  w_finish :: "'w \<Rightarrow> bytes"

text \<open>
  The loop of \<open>insertArrowBatches\<close> (lines 106 to 113) over the batches that remain, with
  the loop variable \<open>first\<close>, the writer's state and the buffer. A rejected ingestion call
  throws out of the loop.
\<close>

fun insertArrowBatches_loop :: "('w, 's, 'r) RecordBatchStreamWriter \<Rightarrow> nat \<Rightarrow> insert_options \<Rightarrow>
    'r list \<Rightarrow> bool \<Rightarrow> 'w \<Rightarrow> IPCBuffer \<Rightarrow> AsyncDuckDB \<Rightarrow> (error + 'w \<times> IPCBuffer) \<times> AsyncDuckDB" where
  "insertArrowBatches_loop writer cn options [] is_first w buffer db = (Inr (w, buffer), db)"
| "insertArrowBatches_loop writer cn options (batch # batches) is_first w buffer db =
     (if \<not> is_first then
        (case flush buffer of
           (out, buffer1) \<Rightarrow>
             (case bindings_insertArrowFromIPCStream db cn out options of
                (p, db1) \<Rightarrow>
                  (case await p db1 of
                     (Inl e, db2) \<Rightarrow> (Inl e, db2)
                   | (Inr u, db2) \<Rightarrow>
                       (case w_write writer w batch of
                          (w1, written) \<Rightarrow>
                            insertArrowBatches_loop writer cn options batches False w1
                              (buffer1 @ written) db2))))
      else
        (case w_write writer w batch of
           (w1, written) \<Rightarrow>
             insertArrowBatches_loop writer cn options batches False w1 (buffer @ written) db))"

text \<open>
  \<open>insertArrowBatches(schema, batches, options)\<close>: a new buffer, the writer reset onto it
  with the schema, the loop, then \<open>finish()\<close> and the last flush. The batches are an
  \<open>Iterable\<close>, modelled by the list of what it yields.
\<close>

definition insertArrowBatches :: "('w, 's, 'r) RecordBatchStreamWriter \<Rightarrow> AsyncDuckDBConnection \<Rightarrow>
    's \<Rightarrow> 'r list \<Rightarrow> insert_options \<Rightarrow> AsyncDuckDB \<Rightarrow> (error + unit) \<times> AsyncDuckDB" where
  "insertArrowBatches writer c schema batches options db =
     (case w_reset writer schema of
        (w0, written) \<Rightarrow>
          (case insertArrowBatches_loop writer (c_conn c) options batches True w0 ([] @ written) db of
             (Inl e, db1) \<Rightarrow> (Inl e, db1)
           | (Inr (w1, buffer1), db1) \<Rightarrow>
               (case flush (buffer1 @ w_finish writer w1) of
                  (out, buffer2) \<Rightarrow>
                    (case bindings_insertArrowFromIPCStream db1 (c_conn c) out options of
                       (p, db2) \<Rightarrow> await p db2))))"

text \<open>
  What the writer emits for each batch of a list, in order, and the state it ends in.
\<close>

fun encode_all :: "('w, 's, 'r) RecordBatchStreamWriter \<Rightarrow> 'w \<Rightarrow> 'r list \<Rightarrow> bytes list \<times> 'w" where
  "encode_all writer w [] = ([], w)"
| "encode_all writer w (batch # batches) =
     (case w_write writer w batch of
        (w1, written) \<Rightarrow>
          (case encode_all writer w1 batches of (outs, w2) \<Rightarrow> (written # outs, w2)))"

text \<open>
  The messages the spec expects on the wire for a schema and a batch sequence: one per
  batch, message k being what the writer emitted for batch k, preceded by the header in the
  first message and followed by the trailing framing in the last one; for no batch at all,
  the single header-only message.
\<close>

definition ipc_messages :: "('w, 's, 'r) RecordBatchStreamWriter \<Rightarrow> 's \<Rightarrow> 'r list \<Rightarrow> bytes list" where
  "ipc_messages writer schema batches =
     (case w_reset writer schema of
        (w0, hdr) \<Rightarrow>
          (case encode_all writer w0 batches of
             (outs, w1) \<Rightarrow>
               if outs = [] then [hdr @ w_finish writer w1]
               else map (\<lambda>k. (if k = 0 then hdr else []) @ outs ! k @
                              (if Suc k = length outs then w_finish writer w1 else []))
                      [0..<length outs]))"

text \<open>
  A mock encoder in the manner of the spec's tests: the header is the schema between angle
  brackets, a batch is written as it is followed by a semicolon, and the trailing framing
  is a full stop. Its state counts the batches written.
\<close>

definition mock_writer :: "(nat, string, string) RecordBatchStreamWriter" where
  "mock_writer =
     \<lparr>w_reset = (\<lambda>schema. (0, ''<'' @ schema @ ''>'')),
      w_write = (\<lambda>w batch. (Suc w, batch @ '';'')),
      w_finish = (\<lambda>w. ''.'')\<rparr>"

section \<open>The prepared statement (\<open>AsyncPreparedStatement\<close>)\<close>

text \<open>
  The statement holds the connection handle and the statement handle, both \<open>readonly\<close>,
  and the reference to the bindings. It has no other field.
\<close>

record AsyncPreparedStatement =
  connectionId :: nat
  statementId :: nat

definition prepareStatement_start :: "AsyncDuckDBConnection \<Rightarrow> string \<Rightarrow> AsyncDuckDB \<Rightarrow>
    nat promise \<times> AsyncDuckDB" where
  "prepareStatement_start c txt db = createPrepared db (c_conn c) txt"

definition prepareStatement :: "AsyncDuckDBConnection \<Rightarrow> string \<Rightarrow> AsyncDuckDB \<Rightarrow>
    (error + AsyncPreparedStatement) \<times> AsyncDuckDB" where
  "prepareStatement c txt db =
     (case prepareStatement_start c txt db of
        (p, db1) \<Rightarrow>
          (case await p db1 of
             (Inl e, db2) \<Rightarrow> (Inl e, db2)
           | (Inr stmt, db2) \<Rightarrow> (Inr \<lparr>connectionId = c_conn c, statementId = stmt\<rparr>, db2)))"

definition statement_close_start :: "AsyncPreparedStatement \<Rightarrow> AsyncDuckDB \<Rightarrow>
    unit promise \<times> AsyncDuckDB" where
  "statement_close_start s db = closePrepared db (connectionId s) (statementId s)"

definition statement_close :: "AsyncPreparedStatement \<Rightarrow> AsyncDuckDB \<Rightarrow> (error + unit) \<times> AsyncDuckDB" where
  "statement_close s db = (case statement_close_start s db of (p, db1) \<Rightarrow> await p db1)"

definition statement_run_start :: "AsyncPreparedStatement \<Rightarrow> jsval list \<Rightarrow> AsyncDuckDB \<Rightarrow>
    bytes promise \<times> AsyncDuckDB" where
  "statement_run_start s params db = runPrepared db (connectionId s) (statementId s) params"

definition statement_run :: "(bytes \<Rightarrow> error + 't) \<Rightarrow> AsyncPreparedStatement \<Rightarrow> jsval list \<Rightarrow>
    AsyncDuckDB \<Rightarrow> (error + 't) \<times> AsyncDuckDB" where
  "statement_run decode s params db =
     (case statement_run_start s params db of
        (p, db1) \<Rightarrow>
          (case await p db1 of
             (Inl e, db2) \<Rightarrow> (Inl e, db2)
           | (Inr buffer, db2) \<Rightarrow> (decode buffer, db2)))"

definition statement_send_start :: "AsyncPreparedStatement \<Rightarrow> jsval list \<Rightarrow> AsyncDuckDB \<Rightarrow>
    bytes promise \<times> AsyncDuckDB" where
  "statement_send_start s params db = sendPrepared db (connectionId s) (statementId s) params"

text \<open>
  \<open>send(params)\<close>: the header is awaited, the iterator made, and the reader built over
  it (line 215) before the call returns the reader.
\<close>

definition statement_send :: "((error + IteratorResult) list \<Rightarrow> 'r verdict) \<Rightarrow>
    AsyncPreparedStatement \<Rightarrow> jsval list \<Rightarrow> AsyncDuckDB \<Rightarrow>
    ((error + 'r \<times> AsyncResultStreamIterator) \<times> AsyncDuckDB) option" where
  "statement_send policy s params db =
     (case statement_send_start s params db of
        (p, db1) \<Rightarrow>
          (case await p db1 of
             (Inl e, db2) \<Rightarrow> Some (Inl e, db2)
           | (Inr hdr, db2) \<Rightarrow>
               (case RecordBatchReader_from policy []
                       (new_AsyncResultStreamIterator (connectionId s) hdr) db2 of
                  None \<Rightarrow> None
                | Some (Inl e, it, db3) \<Rightarrow> Some (Inl e, db3)
                | Some (Inr reader, it, db3) \<Rightarrow> Some (Inr (reader, it), db3))))"

section \<open>Auxiliary definitions for the proofs\<close>


text \<open>
  The messages the loop and the last flush of \<open>insertArrowBatches\<close> hand to the bindings,
  from the loop variable, the buffer, what the writer emits for the remaining batches, and
  the trailing framing.
\<close>

fun loop_messages :: "bool \<Rightarrow> bytes \<Rightarrow> bytes list \<Rightarrow> bytes \<Rightarrow> bytes list" where
  "loop_messages is_first buffer [] fin = [buffer @ fin]"
| "loop_messages is_first buffer (out # outs) fin =
     (if is_first then loop_messages False (buffer @ out) outs fin
      else buffer # loop_messages False out outs fin)"

text \<open>
  Sending a list of messages one call after the other, each awaited, up to the first
  rejected one.
\<close>

fun submit :: "(bytes \<Rightarrow> call) \<Rightarrow> bytes list \<Rightarrow> AsyncDuckDB \<Rightarrow> (error + unit) \<times> AsyncDuckDB" where
  "submit mk [] db = (Inr (), db)"
| "submit mk (m # ms) db =
     (case request reply_void (mk m) db of
        (p, db1) \<Rightarrow>
          (case await p db1 of
             (Inl e, db2) \<Rightarrow> (Inl e, db2)
           | (Inr u, db2) \<Rightarrow> submit mk ms db2))"

section \<open>Facts about the iterator\<close>

lemmas next_defs =
  iterator_next_def received_def fetchQueryResults_def request_def await_def post_def

text \<open>
  C1. The scenario of the spec: the engine answers the three fetches on the connection with
  "A", "B" and an empty chunk. Four successive \<open>next()\<close> calls observe
  ("HEADER", false), ("A", false), ("B", false), (empty, true). The first call leaves the
  bindings untouched; when the second call returns "A" two fetches have been issued (the one
  for "B" is already on its way); three fetches are issued in all.
\<close>

theorem stream_scenario:
  assumes "reply_bytes db (calls db @ [FetchQueryResults c]) = Inr ''A''"
    and "reply_bytes db (calls db @ [FetchQueryResults c, FetchQueryResults c]) = Inr ''B''"
    and "reply_bytes db (calls db @ [FetchQueryResults c, FetchQueryResults c, FetchQueryResults c])
           = Inr []"
  shows "fst (run_next 4 (new_AsyncResultStreamIterator c ''HEADER'') db) =
           [Inr \<lparr>res_done = False, res_value = Some ''HEADER''\<rparr>,
            Inr \<lparr>res_done = False, res_value = Some ''A''\<rparr>,
            Inr \<lparr>res_done = False, res_value = Some ''B''\<rparr>,
            Inr \<lparr>res_done = True, res_value = Some []\<rparr>]
       \<and> snd (snd (run_next 1 (new_AsyncResultStreamIterator c ''HEADER'') db)) = db
       \<and> calls (snd (snd (run_next 2 (new_AsyncResultStreamIterator c ''HEADER'') db))) =
           calls db @ [FetchQueryResults c, FetchQueryResults c]
       \<and> calls (snd (snd (run_next 3 (new_AsyncResultStreamIterator c ''HEADER'') db))) =
           calls db @ [FetchQueryResults c, FetchQueryResults c, FetchQueryResults c]
       \<and> calls (snd (snd (run_next 4 (new_AsyncResultStreamIterator c ''HEADER'') db))) =
           calls db @ [FetchQueryResults c, FetchQueryResults c, FetchQueryResults c]"
  using assms
  by (simp add: eval_nat_numeral next_defs new_AsyncResultStreamIterator_def)

theorem stream_scenario_witness:
  "fst (run_next 4 (new_AsyncResultStreamIterator 1 ''HEADER'')
          (mock_db [Inr ''A'', Inr ''B'', Inr []])) =
     [Inr \<lparr>res_done = False, res_value = Some ''HEADER''\<rparr>,
      Inr \<lparr>res_done = False, res_value = Some ''A''\<rparr>,
      Inr \<lparr>res_done = False, res_value = Some ''B''\<rparr>,
      Inr \<lparr>res_done = True, res_value = Some []\<rparr>]
   \<and> calls (snd (snd (run_next 1 (new_AsyncResultStreamIterator 1 ''HEADER'')
          (mock_db [Inr ''A'', Inr ''B'', Inr []])))) = []
   \<and> calls (snd (snd (run_next 4 (new_AsyncResultStreamIterator 1 ''HEADER'')
          (mock_db [Inr ''A'', Inr ''B'', Inr []])))) =
     [FetchQueryResults 1, FetchQueryResults 1, FetchQueryResults 1]"
  using stream_scenario [of "mock_db [Inr ''A'', Inr ''B'', Inr []]" 1]
  by (simp add: mock_db_def scripted_def)

subsection \<open>After depletion\<close>

lemma next_when_depleted:
  "\<not> first it \<Longrightarrow> depleted it \<Longrightarrow>
   iterator_next it db = (Inr \<lparr>res_done = True, res_value = None\<rparr>, it, db)"
  by (simp add: iterator_next_def)

lemma run_next_when_depleted:
  "\<not> first it \<Longrightarrow> depleted it \<Longrightarrow>
   run_next n it db = (replicate n (Inr \<lparr>res_done = True, res_value = None\<rparr>), it, db)"
  by (induction n) (simp_all add: next_when_depleted)

lemma next_end_marks_depleted:
  assumes "iterator_next it db = (r, it', db')"
    and "(\<not> first it \<and> depleted it) \<or> r = Inr \<lparr>res_done = True, res_value = Some []\<rparr>"
  shows "\<not> first it' \<and> depleted it'"
  using assms
  by (auto simp: next_defs Let_def split: if_splits option.splits sum.splits prod.splits)

lemma run_next_end_marks_depleted:
  "run_next k it db = (rs, it', db') \<Longrightarrow>
   (\<not> first it \<and> depleted it) \<or> Inr \<lparr>res_done = True, res_value = Some []\<rparr> \<in> set rs \<Longrightarrow>
   \<not> first it' \<and> depleted it'"
proof (induction k arbitrary: it db rs)
  case 0
  then show ?case by simp
next
  case (Suc k)
  obtain r it1 db1 where step: "iterator_next it db = (r, it1, db1)"
    by (cases "iterator_next it db") auto
  obtain rs1 where rest: "run_next k it1 db1 = (rs1, it', db')" and rs: "rs = r # rs1"
    using Suc.prems(1) step by (auto split: prod.splits)
  from Suc.prems(2) rs
  have "(\<not> first it \<and> depleted it) \<or> r = Inr \<lparr>res_done = True, res_value = Some []\<rparr>
        \<or> Inr \<lparr>res_done = True, res_value = Some []\<rparr> \<in> set rs1"
    by auto
  then have "(\<not> first it1 \<and> depleted it1)
        \<or> Inr \<lparr>res_done = True, res_value = Some []\<rparr> \<in> set rs1"
    using next_end_marks_depleted [OF step] by blast
  then show ?case
    using Suc.IH [OF rest] by blast
qed

text \<open>
  C2. Once some \<open>next()\<close> call of a stream has returned the zero-length chunk (with
  \<open>done = true\<close>), any number n of further calls all return \<open>{ done: true, value: null }\<close>
  (no chunk), and neither the iterator nor the bindings change: no request is issued.
\<close>

theorem next_idempotent_after_depletion:
  assumes "run_next k (new_AsyncResultStreamIterator c h) db0 = (rs, it, db)"
    and "Inr \<lparr>res_done = True, res_value = Some []\<rparr> \<in> set rs"
  shows "run_next n it db = (replicate n (Inr \<lparr>res_done = True, res_value = None\<rparr>), it, db)"
  using run_next_end_marks_depleted [OF assms(1)] assms(2)
  by (simp add: run_next_when_depleted)

lemma scenario_run:
  "run_next 4 (new_AsyncResultStreamIterator 1 ''HEADER'') (mock_db [Inr ''A'', Inr ''B'', Inr []]) =
     ([Inr \<lparr>res_done = False, res_value = Some ''HEADER''\<rparr>,
       Inr \<lparr>res_done = False, res_value = Some ''A''\<rparr>,
       Inr \<lparr>res_done = False, res_value = Some ''B''\<rparr>,
       Inr \<lparr>res_done = True, res_value = Some []\<rparr>],
      \<lparr>conn = 1, header = ''HEADER'', first = False, depleted = True, inFlight = None\<rparr>,
      (mock_db [Inr ''A'', Inr ''B'', Inr []])
        \<lparr>calls := [FetchQueryResults 1, FetchQueryResults 1, FetchQueryResults 1],
         pending := [], peak := 1\<rparr>)"
  by (simp add: eval_nat_numeral next_defs new_AsyncResultStreamIterator_def mock_db_def
      scripted_def)

theorem next_idempotent_after_depletion_witness:
  "run_next 3 \<lparr>conn = 1, header = ''HEADER'', first = False, depleted = True, inFlight = None\<rparr>
     ((mock_db [Inr ''A'', Inr ''B'', Inr []])
        \<lparr>calls := [FetchQueryResults 1, FetchQueryResults 1, FetchQueryResults 1],
         pending := [], peak := 1\<rparr>)
   = ([Inr \<lparr>res_done = True, res_value = None\<rparr>, Inr \<lparr>res_done = True, res_value = None\<rparr>,
       Inr \<lparr>res_done = True, res_value = None\<rparr>],
      \<lparr>conn = 1, header = ''HEADER'', first = False, depleted = True, inFlight = None\<rparr>,
      (mock_db [Inr ''A'', Inr ''B'', Inr []])
        \<lparr>calls := [FetchQueryResults 1, FetchQueryResults 1, FetchQueryResults 1],
         pending := [], peak := 1\<rparr>)"
  using next_idempotent_after_depletion [OF scenario_run, of 3]
  by (simp add: eval_nat_numeral)

subsection \<open>The in-flight slot\<close>

lemma iterator_next_split:
  "iterator_next it db =
     (case iterator_next_start it db of (t, it1, db1) \<Rightarrow> iterator_next_resume t it1 db1)"
  by (simp add: iterator_next_def iterator_next_start_def iterator_next_resume_def
      split: option.splits prod.splits)











text \<open>
  An instance: a query on connection 2 is pending when the stream on connection 1 is read.
\<close>

lemma busy_db:
  "snd (runQuery_start \<lparr>c_conn = 2\<rparr> ''q'' (mock_db [Inr ''R'', Inr ''A'', Inr ''B'', Inr []]))
     = (mock_db [Inr ''R'', Inr ''A'', Inr ''B'', Inr []])
         \<lparr>calls := [RunQuery 2 ''q''], pending := [0], peak := 1, logged := [''q'']\<rparr>"
  by (simp add: runQuery_start_def bindings_runQuery_def request_def post_def mock_db_def)




subsection \<open>Failed fetches\<close>

text \<open>
  The engine rejects the first fetch and answers the second with "A": the second \<open>next()\<close>
  fails, and the third one returns the chunk "A" as if nothing had happened.
\<close>

theorem failed_fetch_then_resume:
  "fst (run_next 3 (new_AsyncResultStreamIterator 1 ''HEADER'')
          (mock_db [Inl (Error ''boom''), Inr ''A'', Inr []])) =
     [Inr \<lparr>res_done = False, res_value = Some ''HEADER''\<rparr>,
      Inl (Error ''boom''),
      Inr \<lparr>res_done = False, res_value = Some ''A''\<rparr>]"
  by (simp add: eval_nat_numeral next_defs new_AsyncResultStreamIterator_def mock_db_def
      scripted_def)

lemma next_in_flight_rejected:
  assumes "\<not> first it" "\<not> depleted it" "inFlight it = Some p" "outcome p = Inl e"
  shows "iterator_next it db = (Inl e, it, db\<lparr>pending := removeAll (pid p) (pending db)\<rparr>)"
  using assms by (simp add: iterator_next_def await_def)

lemma run_next_in_flight_rejected:
  assumes "\<not> first it" "\<not> depleted it" "inFlight it = Some p" "outcome p = Inl e"
  shows "run_next n it db =
           (replicate n (Inl e), it,
            if n = 0 then db else db\<lparr>pending := removeAll (pid p) (pending db)\<rparr>)"
proof (induction n arbitrary: db)
  case 0
  show ?case by simp
next
  case (Suc n)
  show ?case
    by (simp add: next_in_flight_rejected [OF assms] Suc.IH)
qed

text \<open>
  C4, as amended. Take an iterator that has yielded its header and is not depleted.
  \<^item> If the in-flight slot holds a fetch that fails with e, then every one of the next n
    calls of \<open>next()\<close> fails with e, the iterator is left as it was (the rejected promise
    stays in the slot), and no request is issued.
  \<^item> If the slot is empty and the fetch that \<open>next()\<close> issues fails with e, then that call
    fails with e after issuing this one request, and the iterator's fields are left as they
    were: it keeps no record of the failure.
\<close>

theorem fetch_failure_propagates:
  assumes "\<not> first it" and "\<not> depleted it"
  shows "(inFlight it = Some p \<and> outcome p = Inl e \<longrightarrow>
            fst (run_next n it db) = replicate n (Inl e)
          \<and> fst (snd (run_next n it db)) = it
          \<and> calls (snd (snd (run_next n it db))) = calls db)
       \<and> (inFlight it = None \<and> reply_bytes db (calls db @ [FetchQueryResults (conn it)]) = Inl e \<longrightarrow>
            fst (iterator_next it db) = Inl e
          \<and> fst (snd (iterator_next it db)) = it
          \<and> calls (snd (snd (iterator_next it db))) = calls db @ [FetchQueryResults (conn it)])"
proof (intro conjI impI)
  assume a: "inFlight it = Some p \<and> outcome p = Inl e"
  note r = run_next_in_flight_rejected [OF assms, of p e n db]
  from a r show "fst (run_next n it db) = replicate n (Inl e)" by simp
  from a r show "fst (snd (run_next n it db)) = it" by simp
  from a r show "calls (snd (snd (run_next n it db))) = calls db" by simp
next
  assume b: "inFlight it = None \<and> reply_bytes db (calls db @ [FetchQueryResults (conn it)]) = Inl e"
  with assms show "fst (iterator_next it db) = Inl e" by (simp add: next_defs)
  from b assms show "fst (snd (iterator_next it db)) = it" by (simp add: next_defs)
  from b assms
  show "calls (snd (snd (iterator_next it db))) = calls db @ [FetchQueryResults (conn it)]"
    by (simp add: next_defs)
qed

text \<open>
  The scenario of the spec in which the engine rejects the second fetch: after the header and
  the chunk "A" the rejected fetch is in the slot.
\<close>

lemma second_fetch_rejected:
  "run_next 2 (new_AsyncResultStreamIterator 1 ''HEADER'')
      (mock_db [Inr ''A'', Inl (Error ''boom''), Inr ''C''])
   = ([Inr \<lparr>res_done = False, res_value = Some ''HEADER''\<rparr>,
       Inr \<lparr>res_done = False, res_value = Some ''A''\<rparr>],
      \<lparr>conn = 1, header = ''HEADER'', first = False, depleted = False,
         inFlight = Some (Promise 1 (Inl (Error ''boom'')))\<rparr>,
      (mock_db [Inr ''A'', Inl (Error ''boom''), Inr ''C''])
        \<lparr>calls := [FetchQueryResults 1, FetchQueryResults 1], pending := [1], peak := 1\<rparr>)"
  by (simp add: eval_nat_numeral next_defs new_AsyncResultStreamIterator_def mock_db_def
      scripted_def)

theorem fetch_failure_propagates_witness:
  "fst (run_next 2
         \<lparr>conn = 1, header = ''HEADER'', first = False, depleted = False,
            inFlight = Some (Promise 1 (Inl (Error ''boom'')))\<rparr>
         ((mock_db [Inr ''A'', Inl (Error ''boom''), Inr ''C''])
            \<lparr>calls := [FetchQueryResults 1, FetchQueryResults 1], pending := [1], peak := 1\<rparr>))
     = [Inl (Error ''boom''), Inl (Error ''boom'')]
   \<and> calls (snd (snd (run_next 2
         \<lparr>conn = 1, header = ''HEADER'', first = False, depleted = False,
            inFlight = Some (Promise 1 (Inl (Error ''boom'')))\<rparr>
         ((mock_db [Inr ''A'', Inl (Error ''boom''), Inr ''C''])
            \<lparr>calls := [FetchQueryResults 1, FetchQueryResults 1], pending := [1], peak := 1\<rparr>))))
     = [FetchQueryResults 1, FetchQueryResults 1]
   \<and> fst (iterator_next
         \<lparr>conn = 1, header = ''HEADER'', first = False, depleted = False, inFlight = None\<rparr>
         (mock_db [Inl (Error ''boom''), Inr ''A'', Inr []]))
     = Inl (Error ''boom'')"
  using
    fetch_failure_propagates [of
      "\<lparr>conn = 1, header = ''HEADER'', first = False, depleted = False,
          inFlight = Some (Promise 1 (Inl (Error ''boom'')))\<rparr>"
      "Promise 1 (Inl (Error ''boom''))" "Error ''boom''" 2
      "(mock_db [Inr ''A'', Inl (Error ''boom''), Inr ''C''])
          \<lparr>calls := [FetchQueryResults 1, FetchQueryResults 1], pending := [1], peak := 1\<rparr>"]
    fetch_failure_propagates [of
      "\<lparr>conn = 1, header = ''HEADER'', first = False, depleted = False, inFlight = None\<rparr>"
      undefined "Error ''boom''" 0 "mock_db [Inl (Error ''boom''), Inr ''A'', Inr []]"]
  by (simp add: mock_db_def scripted_def eval_nat_numeral)

section \<open>Facts about batch insertion\<close>

lemma loop_is_submit:
  "(case insertArrowBatches_loop writer cn options batches is_first w buffer db of
      (Inl e, db1) \<Rightarrow> (Inl e, db1)
    | (Inr (w1, buffer1), db1) \<Rightarrow>
        (case flush (buffer1 @ w_finish writer w1) of
           (out, buffer2) \<Rightarrow>
             (case bindings_insertArrowFromIPCStream db1 cn out options of
                (p, db2) \<Rightarrow> await p db2)))
   = submit (\<lambda>m. InsertArrowFromIPCStream cn m options)
       (loop_messages is_first buffer (fst (encode_all writer w batches))
          (w_finish writer (snd (encode_all writer w batches)))) db"
proof (induction batches arbitrary: is_first w buffer db)
  case Nil
  show ?case
    by (simp add: flush_def bindings_insertArrowFromIPCStream_def request_def await_def
        split: sum.splits)
next
  case (Cons batch batches)
  obtain w1 written where wr: "w_write writer w batch = (w1, written)"
    by (cases "w_write writer w batch") auto
  obtain outs w2 where enc: "encode_all writer w1 batches = (outs, w2)"
    by (cases "encode_all writer w1 batches") auto
  show ?case
  proof (cases is_first)
    case True
    show ?thesis
      using Cons.IH [of False w1 "buffer @ written" db] True wr enc by simp
  next
    case False
    show ?thesis
    proof (cases "reply_void db (calls db @ [InsertArrowFromIPCStream cn buffer options])")
      case (Inl e)
      with False wr enc show ?thesis
        by (simp add: flush_def bindings_insertArrowFromIPCStream_def request_def await_def)
    next
      case (Inr u)
      with False wr enc
        Cons.IH [of False w1 written
          "(post (InsertArrowFromIPCStream cn buffer options) db)
             \<lparr>pending := removeAll (length (calls db))
                 (pending (post (InsertArrowFromIPCStream cn buffer options) db))\<rparr>"]
      show ?thesis
        by (simp add: flush_def bindings_insertArrowFromIPCStream_def request_def await_def)
    qed
  qed
qed

lemma insertArrowBatches_is_submit:
  "insertArrowBatches writer c schema batches options db =
     submit (\<lambda>m. InsertArrowFromIPCStream (c_conn c) m options)
       (loop_messages True (snd (w_reset writer schema))
          (fst (encode_all writer (fst (w_reset writer schema)) batches))
          (w_finish writer (snd (encode_all writer (fst (w_reset writer schema)) batches)))) db"
  unfolding insertArrowBatches_def
  using loop_is_submit [where writer = writer and cn = "c_conn c" and options = options
      and batches = batches and is_first = True and w = "fst (w_reset writer schema)"
      and buffer = "snd (w_reset writer schema)" and db = db]
  by (simp add: split_beta)

lemma loop_messages_later:
  "loop_messages False buffer outs fin = butlast (buffer # outs) @ [last (buffer # outs) @ fin]"
  by (induction outs arbitrary: buffer) auto

lemma loop_messages_nth:
  assumes "outs \<noteq> []" and "k < length outs"
  shows "loop_messages True hdr outs fin ! k =
           (if k = 0 then hdr else []) @ outs ! k @ (if Suc k = length outs then fin else [])"
proof -
  obtain out rest where outs: "outs = out # rest"
    using assms(1) by (cases outs) auto
  have lm: "loop_messages True hdr outs fin =
              butlast ((hdr @ out) # rest) @ [last ((hdr @ out) # rest) @ fin]"
    by (simp add: outs loop_messages_later)
  show ?thesis
  proof (cases "Suc k = length outs")
    case True
    then have "loop_messages True hdr outs fin ! k = last ((hdr @ out) # rest) @ fin"
      unfolding lm using outs by (simp add: nth_append)
    also have "last ((hdr @ out) # rest) = (if k = 0 then hdr else []) @ outs ! k"
      using True outs by (cases rest) (auto simp: last_conv_nth)
    finally show ?thesis using True by simp
  next
    case False
    then have lt: "k < length rest" using assms(2) outs by simp
    then have "loop_messages True hdr outs fin ! k = ((hdr @ out) # rest) ! k"
      unfolding lm by (simp add: nth_append nth_butlast del: butlast.simps)
    then show ?thesis using False outs by (cases k) auto
  qed
qed

lemma length_loop_messages:
  "outs \<noteq> [] \<Longrightarrow> length (loop_messages True hdr outs fin) = length outs"
  by (cases outs) (auto simp: loop_messages_later)

lemma length_encode_all: "length (fst (encode_all writer w batches)) = length batches"
  by (induction batches arbitrary: w) (simp_all add: split_beta)

lemma encode_all_empty: "(fst (encode_all writer w batches) = []) = (batches = [])"
  using length_encode_all [of writer w batches] by (metis length_0_conv)

lemma loop_messages_closed:
  "loop_messages True hdr outs fin =
     (if outs = [] then [hdr @ fin]
      else map (\<lambda>k. (if k = 0 then hdr else []) @ outs ! k @
                     (if Suc k = length outs then fin else []))
             [0..<length outs])"
proof (cases "outs = []")
  case True
  then show ?thesis by simp
next
  case False
  have "loop_messages True hdr outs fin =
          map (\<lambda>k. (if k = 0 then hdr else []) @ outs ! k @
                     (if Suc k = length outs then fin else []))
             [0..<length outs]"
    by (rule nth_equalityI) (simp_all add: length_loop_messages [OF False] loop_messages_nth [OF False])
  with False show ?thesis by simp
qed

lemma ipc_messages_loop:
  "ipc_messages writer schema batches =
     loop_messages True (snd (w_reset writer schema))
       (fst (encode_all writer (fst (w_reset writer schema)) batches))
       (w_finish writer (snd (encode_all writer (fst (w_reset writer schema)) batches)))"
  unfolding ipc_messages_def loop_messages_closed by (simp add: split_beta)

lemma insertArrowBatches_submit_messages:
  "insertArrowBatches writer c schema batches options db =
     submit (\<lambda>m. InsertArrowFromIPCStream (c_conn c) m options)
       (ipc_messages writer schema batches) db"
  by (simp add: insertArrowBatches_is_submit ipc_messages_loop)

lemma length_ipc_messages:
  "batches \<noteq> [] \<Longrightarrow> length (ipc_messages writer schema batches) = length batches"
  by (simp add: ipc_messages_def split_beta length_encode_all encode_all_empty)

lemma submit_all_accepted:
  "(\<forall>i<length ms. reply_void db (calls db @ map mk (take (Suc i) ms)) = Inr ()) \<Longrightarrow>
   fst (submit mk ms db) = Inr () \<and> calls (snd (submit mk ms db)) = calls db @ map mk ms"
proof (induction ms arbitrary: db)
  case Nil
  show ?case by simp
next
  case (Cons m ms)
  let ?db2 = "(post (mk m) db)\<lparr>pending := removeAll (length (calls db)) (pending (post (mk m) db))\<rparr>"
  have hd: "reply_void db (calls db @ [mk m]) = Inr ()"
    using Cons.prems by force
  have tl: "\<forall>i<length ms. reply_void ?db2 (calls ?db2 @ map mk (take (Suc i) ms)) = Inr ()"
  proof (intro allI impI)
    fix i assume "i < length ms"
    then have "reply_void db (calls db @ map mk (take (Suc (Suc i)) (m # ms))) = Inr ()"
      using Cons.prems by (metis Suc_less_eq length_Cons)
    then show "reply_void ?db2 (calls ?db2 @ map mk (take (Suc i) ms)) = Inr ()"
      by (simp add: post_def)
  qed
  show ?case
    using Cons.IH [OF tl] hd by (simp add: request_def await_def post_def)
qed

lemma submit_rejected:
  "j < length ms \<Longrightarrow>
   (\<forall>i<j. reply_void db (calls db @ map mk (take (Suc i) ms)) = Inr ()) \<Longrightarrow>
   reply_void db (calls db @ map mk (take (Suc j) ms)) = Inl e \<Longrightarrow>
   fst (submit mk ms db) = Inl e \<and>
   calls (snd (submit mk ms db)) = calls db @ map mk (take (Suc j) ms)"
proof (induction ms arbitrary: db j)
  case Nil
  then show ?case by simp
next
  case (Cons m ms)
  let ?db2 = "(post (mk m) db)\<lparr>pending := removeAll (length (calls db)) (pending (post (mk m) db))\<rparr>"
  show ?case
  proof (cases j)
    case 0
    then have "reply_void db (calls db @ [mk m]) = Inl e"
      using Cons.prems(3) by simp
    then show ?thesis using 0 by (simp add: request_def await_def post_def)
  next
    case (Suc j')
    have hd: "reply_void db (calls db @ [mk m]) = Inr ()"
      using Cons.prems(2) Suc by force
    have lt: "j' < length ms" using Cons.prems(1) Suc by simp
    have ok: "\<forall>i<j'. reply_void ?db2 (calls ?db2 @ map mk (take (Suc i) ms)) = Inr ()"
    proof (intro allI impI)
      fix i assume "i < j'"
      then have "reply_void db (calls db @ map mk (take (Suc (Suc i)) (m # ms))) = Inr ()"
        using Cons.prems(2) Suc by (metis Suc_less_eq)
      then show "reply_void ?db2 (calls ?db2 @ map mk (take (Suc i) ms)) = Inr ()"
        by (simp add: post_def)
    qed
    have bad: "reply_void ?db2 (calls ?db2 @ map mk (take (Suc j') ms)) = Inl e"
      using Cons.prems(3) Suc by (simp add: post_def)
    show ?thesis
      using Cons.IH [OF lt ok bad] hd Suc by (simp add: request_def await_def post_def)
  qed
qed

text \<open>
  C5. For a non-empty batch sequence B1, ..., Bn whose ingestion calls the engine all
  accepts, \<open>insertArrowBatches\<close> succeeds and issues exactly n ingestion calls, in order.
  Call k carries what the writer emitted for batch Bk and for no other batch: so the first
  flush is taken before B2 is written, and flush k holds Bk. The first call also carries the
  header written by \<open>reset\<close>, and the last one ends with the bytes of \<open>finish()\<close>: it
  is sent after the writer has been finalised.
\<close>

theorem batch_insertion_calls:
  assumes "batches \<noteq> []"
    and "\<forall>i<length batches.
           reply_void db (calls db @ map (\<lambda>m. InsertArrowFromIPCStream (c_conn c) m options)
                                      (take (Suc i) (ipc_messages writer schema batches))) = Inr ()"
  shows "fst (insertArrowBatches writer c schema batches options db) = Inr ()
       \<and> calls (snd (insertArrowBatches writer c schema batches options db)) =
           calls db @ map (\<lambda>m. InsertArrowFromIPCStream (c_conn c) m options)
                        (ipc_messages writer schema batches)
       \<and> length (ipc_messages writer schema batches) = length batches
       \<and> (\<forall>k<length batches.
            ipc_messages writer schema batches ! k =
              (if k = 0 then snd (w_reset writer schema) else [])
              @ fst (encode_all writer (fst (w_reset writer schema)) batches) ! k
              @ (if Suc k = length batches
                 then w_finish writer (snd (encode_all writer (fst (w_reset writer schema)) batches))
                 else []))"
proof -
  have len: "length (ipc_messages writer schema batches) = length batches"
    by (rule length_ipc_messages [OF assms(1)])
  have sent: "fst (insertArrowBatches writer c schema batches options db) = Inr ()
       \<and> calls (snd (insertArrowBatches writer c schema batches options db)) =
           calls db @ map (\<lambda>m. InsertArrowFromIPCStream (c_conn c) m options)
                        (ipc_messages writer schema batches)"
    unfolding insertArrowBatches_submit_messages
    by (rule submit_all_accepted) (use assms(2) len in simp)
  have nth: "\<forall>k<length batches.
            ipc_messages writer schema batches ! k =
              (if k = 0 then snd (w_reset writer schema) else [])
              @ fst (encode_all writer (fst (w_reset writer schema)) batches) ! k
              @ (if Suc k = length batches
                 then w_finish writer (snd (encode_all writer (fst (w_reset writer schema)) batches))
                 else [])"
    using assms(1)
    by (simp add: ipc_messages_loop loop_messages_nth encode_all_empty length_encode_all)
  from sent len nth show ?thesis by blast
qed

lemma mock_messages: "ipc_messages mock_writer ''s'' [''B1'', ''B2'', ''B3''] = [''<s>B1;'', ''B2;'', ''B3;.'']"
  by (simp add: ipc_messages_def mock_writer_def upt_rec)

theorem batch_insertion_calls_witness:
  "fst (insertArrowBatches mock_writer \<lparr>c_conn = 7\<rparr> ''s'' [''B1'', ''B2'', ''B3''] [] (mock_db [])) = Inr ()
   \<and> calls (snd (insertArrowBatches mock_writer \<lparr>c_conn = 7\<rparr> ''s'' [''B1'', ''B2'', ''B3''] []
        (mock_db []))) =
       [InsertArrowFromIPCStream 7 ''<s>B1;'' [], InsertArrowFromIPCStream 7 ''B2;'' [],
        InsertArrowFromIPCStream 7 ''B3;.'' []]"
  using batch_insertion_calls [of "[''B1'', ''B2'', ''B3'']" "mock_db []" "\<lparr>c_conn = 7\<rparr>" "[]"
      mock_writer "''s''"]
  by (simp add: mock_messages) (simp add: mock_db_def)

text \<open>
  C6. For the empty batch sequence \<open>insertArrowBatches\<close> issues exactly one ingestion
  call. Its payload is what the writer emits for the schema alone followed by the bytes of
  \<open>finish()\<close>, with no batch in between (the header-only message of an empty table), and
  the operation's outcome is the engine's answer to that call.
\<close>

theorem empty_batch_sequence:
  "calls (snd (insertArrowBatches writer c schema [] options db)) =
     calls db @ [InsertArrowFromIPCStream (c_conn c)
                   (snd (w_reset writer schema) @ w_finish writer (fst (w_reset writer schema)))
                   options]
   \<and> fst (insertArrowBatches writer c schema [] options db) =
       reply_void db
         (calls db @ [InsertArrowFromIPCStream (c_conn c)
                        (snd (w_reset writer schema) @ w_finish writer (fst (w_reset writer schema)))
                        options])"
  by (simp add: insertArrowBatches_def flush_def bindings_insertArrowFromIPCStream_def
      request_def await_def post_def split_beta)

theorem empty_batch_sequence_witness:
  "calls (snd (insertArrowBatches mock_writer \<lparr>c_conn = 7\<rparr> ''s'' [] [] (mock_db []))) =
     [InsertArrowFromIPCStream 7 ''<s>.'' []]
   \<and> fst (insertArrowBatches mock_writer \<lparr>c_conn = 7\<rparr> ''s'' [] [] (mock_db [])) = Inr ()"
  using empty_batch_sequence [of mock_writer "\<lparr>c_conn = 7\<rparr>" "''s''" "[]" "mock_db []"]
  by (simp add: mock_writer_def mock_db_def)

text \<open>
  C7. If ingestion call number j (counting from 0) of a batch sequence is the first one the
  engine rejects, with error e, then \<open>insertArrowBatches\<close> fails with e, and the requests
  it has issued are exactly the first j + 1 ingestion calls: none for the remaining
  batches, and none that would undo the calls already accepted.
\<close>

theorem ingestion_failure_stops_pipeline:
  assumes "j < length (ipc_messages writer schema batches)"
    and "\<forall>i<j. reply_void db (calls db @ map (\<lambda>m. InsertArrowFromIPCStream (c_conn c) m options)
                                      (take (Suc i) (ipc_messages writer schema batches))) = Inr ()"
    and "reply_void db (calls db @ map (\<lambda>m. InsertArrowFromIPCStream (c_conn c) m options)
                                      (take (Suc j) (ipc_messages writer schema batches))) = Inl e"
  shows "fst (insertArrowBatches writer c schema batches options db) = Inl e
       \<and> calls (snd (insertArrowBatches writer c schema batches options db)) =
           calls db @ map (\<lambda>m. InsertArrowFromIPCStream (c_conn c) m options)
                        (take (Suc j) (ipc_messages writer schema batches))"
  unfolding insertArrowBatches_submit_messages
  by (rule submit_rejected [OF assms])

theorem ingestion_failure_stops_pipeline_witness:
  "fst (insertArrowBatches mock_writer \<lparr>c_conn = 7\<rparr> ''s'' [''B1'', ''B2'', ''B3''] []
          ((mock_db [])\<lparr>reply_void := (\<lambda>cs. if length cs = 2 then Inl (Error ''full'') else Inr ())\<rparr>))
     = Inl (Error ''full'')
   \<and> calls (snd (insertArrowBatches mock_writer \<lparr>c_conn = 7\<rparr> ''s'' [''B1'', ''B2'', ''B3''] []
          ((mock_db [])\<lparr>reply_void := (\<lambda>cs. if length cs = 2 then Inl (Error ''full'') else Inr ())\<rparr>)))
     = [InsertArrowFromIPCStream 7 ''<s>B1;'' [], InsertArrowFromIPCStream 7 ''B2;'' []]"
  using ingestion_failure_stops_pipeline [of 1 mock_writer "''s''" "[''B1'', ''B2'', ''B3'']"
      "(mock_db [])\<lparr>reply_void := (\<lambda>cs. if length cs = 2 then Inl (Error ''full'') else Inr ())\<rparr>"
      "\<lparr>c_conn = 7\<rparr>" "[]" "Error ''full''"]
  by (simp add: mock_messages) (simp add: mock_db_def)

section \<open>Facts about the connection\<close>

lemmas binding_defs =
  disconnect_def bindings_runQuery_def bindings_sendQuery_def createPrepared_def
  closePrepared_def runPrepared_def sendPrepared_def bindings_insertArrowFromIPCStream_def
  bindings_insertCSVFromPath_def bindings_insertJSONFromPath_def fetchQueryResults_def
  request_def await_def post_def

lemmas start_defs =
  connection_close_start_def runQuery_start_def sendQuery_start_def prepareStatement_start_def
  insertArrowFromIPCStream_start_def insertCSVFromPath_start_def insertJSONFromPath_start_def
  statement_close_start_def statement_run_start_def statement_send_start_def

text \<open>
  A caller starts \<open>runQuery\<close> twice on one connection without awaiting the first call.
  Both requests are issued and are pending together (the high-water mark is 2), and both
  operations then complete with the engine's answers: nothing detects the overlap.
\<close>

theorem two_queries_interleave:
  "pending (snd (runQuery_start \<lparr>c_conn = 1\<rparr> ''q2''
              (snd (runQuery_start \<lparr>c_conn = 1\<rparr> ''q1'' (mock_db [Inr ''R1'', Inr ''R2'']))))) = [0, 1]
   \<and> calls (snd (runQuery_start \<lparr>c_conn = 1\<rparr> ''q2''
              (snd (runQuery_start \<lparr>c_conn = 1\<rparr> ''q1'' (mock_db [Inr ''R1'', Inr ''R2''])))))
       = [RunQuery 1 ''q1'', RunQuery 1 ''q2'']
   \<and> peak (snd (runQuery_start \<lparr>c_conn = 1\<rparr> ''q2''
              (snd (runQuery_start \<lparr>c_conn = 1\<rparr> ''q1'' (mock_db [Inr ''R1'', Inr ''R2'']))))) = 2
   \<and> fst (runQuery_resume Inr
             (fst (runQuery_start \<lparr>c_conn = 1\<rparr> ''q1'' (mock_db [Inr ''R1'', Inr ''R2''])))
             (snd (runQuery_start \<lparr>c_conn = 1\<rparr> ''q2''
                (snd (runQuery_start \<lparr>c_conn = 1\<rparr> ''q1'' (mock_db [Inr ''R1'', Inr ''R2''])))))) = Inr ''R1''
   \<and> fst (runQuery_resume Inr
             (fst (runQuery_start \<lparr>c_conn = 1\<rparr> ''q2''
                (snd (runQuery_start \<lparr>c_conn = 1\<rparr> ''q1'' (mock_db [Inr ''R1'', Inr ''R2''])))))
             (snd (runQuery_start \<lparr>c_conn = 1\<rparr> ''q2''
                (snd (runQuery_start \<lparr>c_conn = 1\<rparr> ''q1'' (mock_db [Inr ''R1'', Inr ''R2''])))))) = Inr ''R2''"
  by (simp add: start_defs binding_defs runQuery_resume_def mock_db_def scripted_def)

text \<open>
  C8, as amended. Neither the connection nor the prepared statement guards against a second
  operation: whatever is pending at the bindings, every operation issues its request at once
  when it is called, on the handle it holds, and the request joins the pending ones.
  Keeping to one outstanding request per connection is left to the caller.
\<close>

theorem operations_issue_unconditionally:
  "calls (snd (connection_close_start c db)) = calls db @ [Disconnect (c_conn c)]
   \<and> pending (snd (connection_close_start c db)) = pending db @ [length (calls db)]
   \<and> calls (snd (runQuery_start c txt db)) = calls db @ [RunQuery (c_conn c) txt]
   \<and> pending (snd (runQuery_start c txt db)) = pending db @ [length (calls db)]
   \<and> calls (snd (sendQuery_start c txt db)) = calls db @ [SendQuery (c_conn c) txt]
   \<and> pending (snd (sendQuery_start c txt db)) = pending db @ [length (calls db)]
   \<and> calls (snd (prepareStatement_start c txt db)) = calls db @ [CreatePrepared (c_conn c) txt]
   \<and> pending (snd (prepareStatement_start c txt db)) = pending db @ [length (calls db)]
   \<and> calls (snd (insertArrowFromIPCStream_start c buffer options db)) =
        calls db @ [InsertArrowFromIPCStream (c_conn c) buffer options]
   \<and> pending (snd (insertArrowFromIPCStream_start c buffer options db)) =
        pending db @ [length (calls db)]
   \<and> calls (snd (insertCSVFromPath_start c txt options db)) =
        calls db @ [InsertCSVFromPath (c_conn c) txt options]
   \<and> pending (snd (insertCSVFromPath_start c txt options db)) = pending db @ [length (calls db)]
   \<and> calls (snd (insertJSONFromPath_start c txt options db)) =
        calls db @ [InsertJSONFromPath (c_conn c) txt options]
   \<and> pending (snd (insertJSONFromPath_start c txt options db)) = pending db @ [length (calls db)]
   \<and> calls (snd (statement_close_start s db)) =
        calls db @ [ClosePrepared (connectionId s) (statementId s)]
   \<and> pending (snd (statement_close_start s db)) = pending db @ [length (calls db)]
   \<and> calls (snd (statement_run_start s params db)) =
        calls db @ [RunPrepared (connectionId s) (statementId s) params]
   \<and> pending (snd (statement_run_start s params db)) = pending db @ [length (calls db)]
   \<and> calls (snd (statement_send_start s params db)) =
        calls db @ [SendPrepared (connectionId s) (statementId s) params]
   \<and> pending (snd (statement_send_start s params db)) = pending db @ [length (calls db)]"
  by (simp add: start_defs binding_defs)

theorem operations_issue_unconditionally_witness:
  "pending (snd (sendQuery_start \<lparr>c_conn = 1\<rparr> ''q2''
              (snd (runQuery_start \<lparr>c_conn = 1\<rparr> ''q1'' (mock_db []))))) = [0, 1]"
  using operations_issue_unconditionally [of "\<lparr>c_conn = 1\<rparr>" "mock_db []" "''q1''"]
    operations_issue_unconditionally [of "\<lparr>c_conn = 1\<rparr>"
      "snd (runQuery_start \<lparr>c_conn = 1\<rparr> ''q1'' (mock_db []))" "''q2''"]
  by (simp add: mock_db_def)

section \<open>Facts about the prepared statement\<close>

lemma next_calls:
  assumes "iterator_next it db = (r, it1, db1)"
  shows "conn it1 = conn it \<and> reply_bytes db1 = reply_bytes db
       \<and> (\<exists>k. calls db1 = calls db @ replicate k (FetchQueryResults (conn it)))"
proof -
  have "conn it1 = conn it \<and> reply_bytes db1 = reply_bytes db
       \<and> (calls db1 = calls db @ replicate 0 (FetchQueryResults (conn it))
          \<or> calls db1 = calls db @ replicate 1 (FetchQueryResults (conn it))
          \<or> calls db1 = calls db @ replicate 2 (FetchQueryResults (conn it)))"
    using assms
    by (auto simp: next_defs Let_def numeral_2_eq_2
        split: if_splits option.splits sum.splits prod.splits)
  then show ?thesis by blast
qed

lemma reader_from_calls:
  assumes "RecordBatchReader_from policy seen it db = Some y"
  shows "\<exists>k. calls (snd (snd y)) = calls db @ replicate k (FetchQueryResults (conn it))"
proof (rule RecordBatchReader_from.raw_induct
    [where P = "\<lambda>policy seen it db y.
       \<exists>k. calls (snd (snd y)) = calls db @ replicate k (FetchQueryResults (conn it))",
     OF _ assms])
  fix self :: "((error + IteratorResult) list \<Rightarrow> 'a verdict) \<Rightarrow> (error + IteratorResult) list \<Rightarrow>
      AsyncResultStreamIterator \<Rightarrow> AsyncDuckDB \<Rightarrow>
      ((error + 'a) \<times> AsyncResultStreamIterator \<times> AsyncDuckDB) option"
    and policy seen it db y
  assume IH: "\<And>policy seen it db y. self policy seen it db = Some y \<Longrightarrow>
      \<exists>k. calls (snd (snd y)) = calls db @ replicate k (FetchQueryResults (conn it))"
    and eq: "(case policy seen of
               Pull \<Rightarrow> (case iterator_next it db of
                          (r, it1, db1) \<Rightarrow> self policy (seen @ [r]) it1 db1)
             | Ready reader \<Rightarrow> Some (Inr reader, it, db)
             | Fail e \<Rightarrow> Some (Inl e, it, db)) = Some y"
  show "\<exists>k. calls (snd (snd y)) = calls db @ replicate k (FetchQueryResults (conn it))"
  proof (cases "policy seen")
    case Pull
    obtain r it1 db1 where step: "iterator_next it db = (r, it1, db1)"
      by (cases "iterator_next it db") auto
    from eq Pull step have "self policy (seen @ [r]) it1 db1 = Some y" by simp
    from IH [OF this] obtain k
      where k: "calls (snd (snd y)) = calls db1 @ replicate k (FetchQueryResults (conn it1))"
      by blast
    from next_calls [OF step] obtain j
      where j: "calls db1 = calls db @ replicate j (FetchQueryResults (conn it))"
        and c: "conn it1 = conn it"
      by blast
    have "calls (snd (snd y)) = calls db @ replicate (j + k) (FetchQueryResults (conn it))"
      using k j c by (simp add: replicate_add)
    then show ?thesis by blast
  next
    case (Ready reader)
    with eq have "calls (snd (snd y)) = calls db @ replicate 0 (FetchQueryResults (conn it))"
      by auto
    then show ?thesis by blast
  next
    case (Fail e)
    with eq have "calls (snd (snd y)) = calls db @ replicate 0 (FetchQueryResults (conn it))"
      by auto
    then show ?thesis by blast
  qed
qed

text \<open>
  An engine that still answers for a statement after \<open>closePrepared\<close>: \<open>run\<close> called
  after \<open>close()\<close> succeeds and returns the table.
\<close>

theorem run_after_close_succeeds:
  "fst (statement_close \<lparr>connectionId = 1, statementId = 5\<rparr> (mock_db [Inr [], Inr ''TABLE''])) = Inr ()
   \<and> fst (statement_run Inr \<lparr>connectionId = 1, statementId = 5\<rparr> [JNum 42]
            (snd (statement_close \<lparr>connectionId = 1, statementId = 5\<rparr>
                    (mock_db [Inr [], Inr ''TABLE''])))) = Inr ''TABLE''"
  by (simp add: statement_close_def statement_run_def start_defs binding_defs
      mock_db_def scripted_def)

text \<open>
  C9, as amended. \<open>close()\<close> forwards \<open>closePrepared\<close> to the bindings and records
  nothing in the statement.
  \<^item> A \<open>run(params)\<close> after it forwards \<open>runPrepared\<close> with the same handles, and
    fails exactly when the engine rejects that request or the buffer does not decode.
  \<^item> A \<open>send(params)\<close> after it forwards \<open>sendPrepared\<close> with the same handles. If the
    engine rejects that request, \<open>send\<close> fails with the engine's error and issues nothing
    else. Otherwise it builds the reader over a new iterator on the connection and the
    header received, and the outcome of \<open>send\<close> is the outcome of that construction.
  \<^item> Whenever \<open>send\<close> returns, the requests it has issued are that \<open>sendPrepared\<close>
    followed by fetches on the statement's connection, those of the \<open>next()\<close> calls the
    reader's construction made.
\<close>

theorem closed_statement_forwards:
  "calls (snd (statement_close s db)) = calls db @ [ClosePrepared (connectionId s) (statementId s)]
   \<and> calls (snd (statement_run decode s params (snd (statement_close s db)))) =
       calls db @ [ClosePrepared (connectionId s) (statementId s),
                   RunPrepared (connectionId s) (statementId s) params]
   \<and> fst (statement_run decode s params (snd (statement_close s db))) =
       (case reply_bytes db (calls db @ [ClosePrepared (connectionId s) (statementId s),
                                         RunPrepared (connectionId s) (statementId s) params]) of
          Inl e \<Rightarrow> Inl e
        | Inr buffer \<Rightarrow> decode buffer)
   \<and> (\<forall>e. reply_bytes db (calls db @ [ClosePrepared (connectionId s) (statementId s),
                                       SendPrepared (connectionId s) (statementId s) params]) = Inl e
          \<longrightarrow> (\<exists>db'. statement_send policy s params (snd (statement_close s db)) = Some (Inl e, db')
                    \<and> calls db' = calls db @ [ClosePrepared (connectionId s) (statementId s),
                                               SendPrepared (connectionId s) (statementId s) params]))
   \<and> (\<forall>hdr. reply_bytes db (calls db @ [ClosePrepared (connectionId s) (statementId s),
                                         SendPrepared (connectionId s) (statementId s) params]) = Inr hdr
          \<longrightarrow> (\<exists>db1. calls db1 = calls db @ [ClosePrepared (connectionId s) (statementId s),
                                               SendPrepared (connectionId s) (statementId s) params]
                    \<and> reply_bytes db1 = reply_bytes db
                    \<and> statement_send policy s params (snd (statement_close s db)) =
                        (case RecordBatchReader_from policy []
                                (new_AsyncResultStreamIterator (connectionId s) hdr) db1 of
                           None \<Rightarrow> None
                         | Some (Inl e, it, db2) \<Rightarrow> Some (Inl e, db2)
                         | Some (Inr reader, it, db2) \<Rightarrow> Some (Inr (reader, it), db2))))
   \<and> (\<forall>r db'. statement_send policy s params (snd (statement_close s db)) = Some (r, db')
          \<longrightarrow> (\<exists>k. calls db' = calls db @ [ClosePrepared (connectionId s) (statementId s),
                                              SendPrepared (connectionId s) (statementId s) params]
                                   @ replicate k (FetchQueryResults (connectionId s))))"
proof (intro conjI allI impI)
  show "calls (snd (statement_close s db)) =
          calls db @ [ClosePrepared (connectionId s) (statementId s)]"
    by (simp add: statement_close_def start_defs binding_defs)
  show "calls (snd (statement_run decode s params (snd (statement_close s db)))) =
       calls db @ [ClosePrepared (connectionId s) (statementId s),
                   RunPrepared (connectionId s) (statementId s) params]"
    by (simp add: statement_close_def statement_run_def start_defs binding_defs split: sum.splits)
  show "fst (statement_run decode s params (snd (statement_close s db))) =
       (case reply_bytes db (calls db @ [ClosePrepared (connectionId s) (statementId s),
                                         RunPrepared (connectionId s) (statementId s) params]) of
          Inl e \<Rightarrow> Inl e
        | Inr buffer \<Rightarrow> decode buffer)"
    by (simp add: statement_close_def statement_run_def start_defs binding_defs split: sum.splits)
next
  fix e
  assume "reply_bytes db (calls db @ [ClosePrepared (connectionId s) (statementId s),
                                       SendPrepared (connectionId s) (statementId s) params]) = Inl e"
  then show "\<exists>db'. statement_send policy s params (snd (statement_close s db)) = Some (Inl e, db')
                    \<and> calls db' = calls db @ [ClosePrepared (connectionId s) (statementId s),
                                               SendPrepared (connectionId s) (statementId s) params]"
    by (simp add: statement_close_def statement_send_def start_defs binding_defs)
next
  fix hdr
  assume acc: "reply_bytes db (calls db @ [ClosePrepared (connectionId s) (statementId s),
                                       SendPrepared (connectionId s) (statementId s) params]) = Inr hdr"
  let ?db1 = "snd (await (fst (statement_send_start s params (snd (statement_close s db))))
                    (snd (statement_send_start s params (snd (statement_close s db)))))"
  have "calls ?db1 = calls db @ [ClosePrepared (connectionId s) (statementId s),
                                  SendPrepared (connectionId s) (statementId s) params]"
    by (simp add: statement_close_def start_defs binding_defs)
  moreover have "reply_bytes ?db1 = reply_bytes db"
    by (simp add: statement_close_def start_defs binding_defs)
  moreover have "statement_send policy s params (snd (statement_close s db)) =
                        (case RecordBatchReader_from policy []
                                (new_AsyncResultStreamIterator (connectionId s) hdr) ?db1 of
                           None \<Rightarrow> None
                         | Some (Inl e, it, db2) \<Rightarrow> Some (Inl e, db2)
                         | Some (Inr reader, it, db2) \<Rightarrow> Some (Inr (reader, it), db2))"
    using acc by (simp add: statement_close_def statement_send_def start_defs binding_defs)
  ultimately
  show "\<exists>db1. calls db1 = calls db @ [ClosePrepared (connectionId s) (statementId s),
                                               SendPrepared (connectionId s) (statementId s) params]
                    \<and> reply_bytes db1 = reply_bytes db
                    \<and> statement_send policy s params (snd (statement_close s db)) =
                        (case RecordBatchReader_from policy []
                                (new_AsyncResultStreamIterator (connectionId s) hdr) db1 of
                           None \<Rightarrow> None
                         | Some (Inl e, it, db2) \<Rightarrow> Some (Inl e, db2)
                         | Some (Inr reader, it, db2) \<Rightarrow> Some (Inr (reader, it), db2))"
    by blast
next
  fix r db'
  assume ret: "statement_send policy s params (snd (statement_close s db)) = Some (r, db')"
  let ?sent = "calls db @ [ClosePrepared (connectionId s) (statementId s),
                           SendPrepared (connectionId s) (statementId s) params]"
  have "\<exists>k. calls db' = ?sent @ replicate k (FetchQueryResults (connectionId s))"
  proof (cases "reply_bytes db ?sent")
    case (Inl e)
    with ret have "calls db' = ?sent @ replicate 0 (FetchQueryResults (connectionId s))"
      by (auto simp: statement_close_def statement_send_def start_defs binding_defs)
    then show ?thesis by blast
  next
    case (Inr hdr)
    let ?db1 = "snd (await (fst (statement_send_start s params (snd (statement_close s db))))
                      (snd (statement_send_start s params (snd (statement_close s db)))))"
    have c1: "calls ?db1 = ?sent"
      by (simp add: statement_close_def start_defs binding_defs)
    from ret Inr obtain y where
      y: "RecordBatchReader_from policy [] (new_AsyncResultStreamIterator (connectionId s) hdr) ?db1
            = Some y" and d: "db' = snd (snd y)"
      by (auto simp: statement_close_def statement_send_def start_defs binding_defs
          split: option.splits sum.splits prod.splits)
    from reader_from_calls [OF y] c1 d show ?thesis
      by (simp add: new_AsyncResultStreamIterator_def)
  qed
  then show "\<exists>k. calls db' = calls db @ [ClosePrepared (connectionId s) (statementId s),
                                              SendPrepared (connectionId s) (statementId s) params]
                                   @ replicate k (FetchQueryResults (connectionId s))"
    by simp
qed

lemma send_after_close_example:
  "statement_send (peek_policy 8) \<lparr>connectionId = 1, statementId = 5\<rparr> [JNum 42]
     (snd (statement_close \<lparr>connectionId = 1, statementId = 5\<rparr>
        (mock_db [Inr [], Inr ''SCHEMA-1''])))
   = Some (Inr (''SCHEMA-1'',
                \<lparr>conn = 1, header = ''SCHEMA-1'', first = False, depleted = False,
                   inFlight = None\<rparr>),
           (mock_db [Inr [], Inr ''SCHEMA-1''])
             \<lparr>calls := [ClosePrepared 1 5, SendPrepared 1 5 [JNum 42]], pending := [],
              peak := 1\<rparr>)"
  by (simp add: statement_send_def statement_close_def start_defs binding_defs mock_db_def
      scripted_def RecordBatchReader_from.simps peek_policy_def seen_bytes_def next_defs
      new_AsyncResultStreamIterator_def)

text \<open>
  With a header shorter than the 8 bytes the policy asks for, the construction goes on to
  call \<open>next()\<close>, which issues a fetch; if the engine rejects it, \<open>send\<close> fails with
  that error.
\<close>

lemma send_after_close_short_header:
  "map_option (\<lambda>x. (fst x, calls (snd x)))
     (statement_send (peek_policy 8) \<lparr>connectionId = 1, statementId = 5\<rparr> [JNum 42]
        (snd (statement_close \<lparr>connectionId = 1, statementId = 5\<rparr>
           (mock_db [Inr [], Inr ''TABLE'', Inl (Error ''gone'')]))))
   = Some (Inl (Error ''gone''),
           [ClosePrepared 1 5, SendPrepared 1 5 [JNum 42], FetchQueryResults 1])"
  by (simp add: statement_send_def statement_close_def start_defs binding_defs mock_db_def
      scripted_def RecordBatchReader_from.simps peek_policy_def seen_bytes_def next_defs
      new_AsyncResultStreamIterator_def)

theorem closed_statement_forwards_witness:
  "fst (statement_run Inr \<lparr>connectionId = 1, statementId = 5\<rparr> [JNum 42]
          (snd (statement_close \<lparr>connectionId = 1, statementId = 5\<rparr>
                  (mock_db [Inr [], Inl (Error ''no such statement'')])))) =
     (Inl (Error ''no such statement'') :: error + bytes)
   \<and> map_option fst
        (statement_send (peek_policy 8) \<lparr>connectionId = 1, statementId = 5\<rparr> [JNum 42]
          (snd (statement_close \<lparr>connectionId = 1, statementId = 5\<rparr>
                  (mock_db [Inr [], Inl (Error ''no such statement'')])))) =
     Some (Inl (Error ''no such statement''))
   \<and> map_option (\<lambda>x. calls (snd x))
        (statement_send (peek_policy 8) \<lparr>connectionId = 1, statementId = 5\<rparr> [JNum 42]
          (snd (statement_close \<lparr>connectionId = 1, statementId = 5\<rparr>
                  (mock_db [Inr [], Inr ''SCHEMA-1''])))) =
     Some [ClosePrepared 1 5, SendPrepared 1 5 [JNum 42]]"
proof -
  let ?s = "\<lparr>connectionId = 1, statementId = 5\<rparr>"
  let ?gone = "mock_db [Inr [], Inl (Error ''no such statement'')]"
  let ?alive = "mock_db [Inr [], Inr ''SCHEMA-1'']"
  note gone = closed_statement_forwards [of ?s ?gone Inr "[JNum 42]" "peek_policy 8"]
  note alive = closed_statement_forwards [of ?s ?alive Inr "[JNum 42]" "peek_policy 8"]
  have rejected_run:
    "reply_bytes ?gone (calls ?gone @ [ClosePrepared (connectionId ?s) (statementId ?s),
        RunPrepared (connectionId ?s) (statementId ?s) [JNum 42]]) = Inl (Error ''no such statement'')"
    by (simp add: mock_db_def scripted_def)
  have rejected_send:
    "reply_bytes ?gone (calls ?gone @ [ClosePrepared (connectionId ?s) (statementId ?s),
        SendPrepared (connectionId ?s) (statementId ?s) [JNum 42]]) = Inl (Error ''no such statement'')"
    by (simp add: mock_db_def scripted_def)
  have accepted_send:
    "reply_bytes ?alive (calls ?alive @ [ClosePrepared (connectionId ?s) (statementId ?s),
        SendPrepared (connectionId ?s) (statementId ?s) [JNum 42]]) = Inr ''SCHEMA-1''"
    by (simp add: mock_db_def scripted_def)
  from gone [THEN conjunct2, THEN conjunct2, THEN conjunct1] have
    "fst (statement_run Inr ?s [JNum 42] (snd (statement_close ?s ?gone))) =
       (case reply_bytes ?gone (calls ?gone @ [ClosePrepared (connectionId ?s) (statementId ?s),
                RunPrepared (connectionId ?s) (statementId ?s) [JNum 42]]) of
          Inl e \<Rightarrow> Inl e
        | Inr buffer \<Rightarrow> Inr buffer)" .
  then have run: "fst (statement_run Inr ?s [JNum 42] (snd (statement_close ?s ?gone))) =
       (Inl (Error ''no such statement'') :: error + bytes)"
    by (simp only: rejected_run sum.case)
  note gone [THEN conjunct2, THEN conjunct2, THEN conjunct2, THEN conjunct1, rule_format,
      OF rejected_send]
  then obtain db'
    where "statement_send (peek_policy 8) ?s [JNum 42] (snd (statement_close ?s ?gone)) =
             Some (Inl (Error ''no such statement''), db')"
    by blast
  then have send: "map_option fst
        (statement_send (peek_policy 8) ?s [JNum 42] (snd (statement_close ?s ?gone))) =
     Some (Inl (Error ''no such statement''))"
    by simp
  note alive [THEN conjunct2, THEN conjunct2, THEN conjunct2, THEN conjunct2, THEN conjunct1,
      rule_format, OF accepted_send]
  then obtain db1 :: AsyncDuckDB
    where "calls db1 = calls ?alive @ [ClosePrepared (connectionId ?s) (statementId ?s),
        SendPrepared (connectionId ?s) (statementId ?s) [JNum 42]]"
    by blast
  then have "calls db1 = [ClosePrepared 1 5, SendPrepared 1 5 [JNum 42]]"
    by (simp add: mock_db_def)
  have sent: "map_option (\<lambda>x. calls (snd x))
        (statement_send (peek_policy 8) ?s [JNum 42] (snd (statement_close ?s ?alive))) =
     Some [ClosePrepared 1 5, SendPrepared 1 5 [JNum 42]]"
    unfolding send_after_close_example by simp
  from run send sent show ?thesis by blast
qed

section \<open>Facts about \<open>useUnsafe\<close>\<close>

text \<open>
  C10. \<open>useUnsafe(callback)\<close> is \<open>callback(bindings, conn)\<close> and nothing else, for
  every callback. So the callback can return the raw handle to its caller, and it can issue
  a request on that handle whatever is pending on it.
\<close>

theorem useUnsafe_hands_out_handle:
  "useUnsafe c callback db = callback db (c_conn c)
   \<and> useUnsafe c (\<lambda>b cn. cn) db = c_conn c
   \<and> calls (snd (useUnsafe c fetchQueryResults db)) = calls db @ [FetchQueryResults (c_conn c)]
   \<and> pending (snd (useUnsafe c fetchQueryResults db)) = pending db @ [length (calls db)]"
  by (simp add: useUnsafe_def binding_defs)

theorem useUnsafe_hands_out_handle_witness:
  "useUnsafe \<lparr>c_conn = 7\<rparr> (\<lambda>b cn. (cn, calls b)) (mock_db []) = (7, [])
   \<and> pending (snd (useUnsafe \<lparr>c_conn = 7\<rparr> fetchQueryResults
                (snd (runQuery_start \<lparr>c_conn = 7\<rparr> ''q'' (mock_db []))))) = [0, 1]"
  using useUnsafe_hands_out_handle [of "\<lparr>c_conn = 7\<rparr>" "\<lambda>b cn. (cn, calls b)" "mock_db []"]
    useUnsafe_hands_out_handle [of "\<lparr>c_conn = 7\<rparr>" fetchQueryResults
      "snd (runQuery_start \<lparr>c_conn = 7\<rparr> ''q'' (mock_db []))"]
  by (simp add: mock_db_def start_defs binding_defs)

end
